theory Spec2Isabelle
  imports Complex_Main
begin

section \<open>Conventions of the embedding\<close>

text \<open>
  The repository computes with Python floats. The embedding reads every float as an exact
  real number: the properties below are the arithmetic design of the program, not
  statements about binary rounding. A calendar date is the number of its day (an
  \<open>int\<close>), so that \<open>d + 90\<close> is the date ninety days later. Python's \<open>None\<close>
  is \<open>None\<close> of an option type, and an exception is the left summand of a sum type.
\<close>

datatype py_error = ZeroDivisionError | KeyError | IndexError

text \<open>Python's \<open>a / b\<close> on floats raises when the divisor is zero.\<close>

definition py_div :: "real \<Rightarrow> real \<Rightarrow> py_error + real" where
  "py_div a b = (if b = 0 then Inl ZeroDivisionError else Inr (a / b))"

text \<open>
  Python's \<open>round(x, 2)\<close>: the nearest multiple of one hundredth, a tie going to the
  even neighbour.
\<close>

definition round_half_even :: "real \<Rightarrow> int" where
  "round_half_even y =
     (let f = \<lfloor>y\<rfloor>; d = y - of_int f
      in if d < 1 / 2 then f
         else if 1 / 2 < d then f + 1
         else if even f then f else f + 1)"

definition py_round2 :: "real \<Rightarrow> real" where
  "py_round2 x = of_int (round_half_even (x * 100)) / 100"

section \<open>risk\_manager.py\<close>

record risk_config =
  max_position_size_percent :: real
  max_daily_loss_percent :: real
  max_drawdown_percent :: real
  min_stock_price :: real
  max_stock_price :: real
  min_daily_volume :: int

record risk_manager =
  config :: risk_config
  daily_start_balance :: "real option"
  max_drawdown_balance :: "real option"

text \<open>\<open>RiskManager.__init__\<close>: both balances start unset.\<close>

definition new_risk_manager :: "risk_config \<Rightarrow> risk_manager" where
  "new_risk_manager cfg =
     \<lparr>config = cfg, daily_start_balance = None, max_drawdown_balance = None\<rparr>"

definition set_daily_start_balance :: "risk_manager \<Rightarrow> real \<Rightarrow> risk_manager" where
  "set_daily_start_balance rm balance =
     rm\<lparr>daily_start_balance := Some balance,
        max_drawdown_balance :=
          (case max_drawdown_balance rm of
             None \<Rightarrow> Some balance
           | Some h \<Rightarrow> Some (max h balance))\<rparr>"

definition check_daily_loss_limit :: "risk_manager \<Rightarrow> real \<Rightarrow> py_error + (bool \<times> real)" where
  "check_daily_loss_limit rm current_balance =
     (case daily_start_balance rm of
        None \<Rightarrow> Inr (True, 0)
      | Some start \<Rightarrow>
          (let loss = start - current_balance in
           case py_div loss start of
             Inl e \<Rightarrow> Inl e
           | Inr q \<Rightarrow>
               (let loss_percent = q * 100 in
                if max_daily_loss_percent (config rm) \<le> loss_percent
                then Inr (False, loss_percent)
                else Inr (True, loss_percent))))"

definition check_max_drawdown :: "risk_manager \<Rightarrow> real \<Rightarrow> py_error + (bool \<times> real)" where
  "check_max_drawdown rm current_balance =
     (case max_drawdown_balance rm of
        None \<Rightarrow> Inr (True, 0)
      | Some peak \<Rightarrow>
          (let drawdown = peak - current_balance in
           case py_div drawdown peak of
             Inl e \<Rightarrow> Inl e
           | Inr q \<Rightarrow>
               (let drawdown_percent = q * 100 in
                if max_drawdown_percent (config rm) \<le> drawdown_percent
                then Inr (False, drawdown_percent)
                else Inr (True, drawdown_percent))))"

text \<open>
  \<open>can_trade\<close> builds its refusal messages with the format \<open>:.2f\<close>; the formatter
  of a float is the parameter \<open>fmt\<close>.
\<close>

definition can_trade ::
  "(real \<Rightarrow> string) \<Rightarrow> risk_manager \<Rightarrow> real \<Rightarrow> py_error + (bool \<times> string)" where
  "can_trade fmt rm current_balance =
     (case check_daily_loss_limit rm current_balance of
        Inl e \<Rightarrow> Inl e
      | Inr (can_trade_daily, daily_loss) \<Rightarrow>
          if \<not> can_trade_daily
          then Inr (False, ''Daily loss limit exceeded: '' @ fmt daily_loss @ ''%'')
          else
            (case check_max_drawdown rm current_balance of
               Inl e \<Rightarrow> Inl e
             | Inr (can_trade_dd, drawdown) \<Rightarrow>
                 if \<not> can_trade_dd
                 then Inr (False, ''Max drawdown limit exceeded: '' @ fmt drawdown @ ''%'')
                 else Inr (True, ''All risk checks passed'')))"

definition calculate_stop_loss :: "real \<Rightarrow> real \<Rightarrow> real" where
  "calculate_stop_loss entry_price avg_drawdown =
     (let stop_loss_percent = avg_drawdown * 1.1;
          stop_loss_percent =
            (if -0.08 < stop_loss_percent then -0.08 else stop_loss_percent);
          stop_loss_percent =
            (if stop_loss_percent < -0.20 then -0.20 else stop_loss_percent);
          stop_loss_price = entry_price * (1 + stop_loss_percent)
      in py_round2 stop_loss_price)"

definition calculate_take_profit :: "real \<Rightarrow> real \<Rightarrow> real" where
  "calculate_take_profit entry_price avg_gain =
     (let adjusted_gain = avg_gain * 0.90;
          take_profit_price = entry_price * (1 + adjusted_gain)
      in py_round2 take_profit_price)"

subsection \<open>A session of calls on one risk manager\<close>

text \<open>
  The calls a session makes on the shared \<open>RiskManager\<close> object. Only
  \<open>set_daily_start_balance\<close> assigns to a field of \<open>self\<close>; the other methods read
  the fields and return a value.
\<close>

datatype risk_call =
    Set_daily_start_balance real
  | Check_daily_loss_limit real
  | Check_max_drawdown real
  | Can_trade real
  | Calculate_stop_loss real real
  | Calculate_take_profit real real

datatype risk_value =
    Returned_none
  | Returned_check "py_error + (bool \<times> real)"
  | Returned_verdict "py_error + (bool \<times> string)"
  | Returned_price real

definition call ::
  "(real \<Rightarrow> string) \<Rightarrow> risk_manager \<Rightarrow> risk_call \<Rightarrow> risk_manager \<times> risk_value" where
  "call fmt rm c =
     (case c of
        Set_daily_start_balance b \<Rightarrow> (set_daily_start_balance rm b, Returned_none)
      | Check_daily_loss_limit b \<Rightarrow> (rm, Returned_check (check_daily_loss_limit rm b))
      | Check_max_drawdown b \<Rightarrow> (rm, Returned_check (check_max_drawdown rm b))
      | Can_trade b \<Rightarrow> (rm, Returned_verdict (can_trade fmt rm b))
      | Calculate_stop_loss p d \<Rightarrow> (rm, Returned_price (calculate_stop_loss p d))
      | Calculate_take_profit p g \<Rightarrow> (rm, Returned_price (calculate_take_profit p g)))"

fun session :: "(real \<Rightarrow> string) \<Rightarrow> risk_manager \<Rightarrow> risk_call list \<Rightarrow> risk_manager" where
  "session fmt rm [] = rm"
| "session fmt rm (c # cs) = session fmt (fst (call fmt rm c)) cs"

text \<open>Whether a call is the daily balance update.\<close>

fun is_balance_update :: "risk_call \<Rightarrow> bool" where
  "is_balance_update (Set_daily_start_balance b) = True"
| "is_balance_update c = False"

text \<open>The order on high-water marks: an unset mark is below every mark.\<close>

fun hwm_le :: "real option \<Rightarrow> real option \<Rightarrow> bool" where
  "hwm_le None _ = True"
| "hwm_le (Some a) None = False"
| "hwm_le (Some a) (Some b) = (a \<le> b)"

text \<open>The clamp of the stop percentage as the specification words it.\<close>

definition clamped_stop_percent :: "real \<Rightarrow> real" where
  "clamped_stop_percent avg_drawdown = max (-0.20) (min (-0.08) (avg_drawdown * 1.1))"

section \<open>Price history\<close>

text \<open>
  One daily bar. A price history (the pandas \<open>DataFrame\<close> of the source) is the list
  of its rows in index order; the dates of the index increase strictly, so a date names
  at most one row.
\<close>

record bar =
  bar_date :: int
  bar_open :: real
  bar_high :: real
  bar_low :: real
  bar_close :: real
  bar_volume :: real

text \<open>\<open>df.loc[d]\<close>: the row of date \<open>d\<close>, \<open>KeyError\<close> when the index lacks it.\<close>

definition df_loc :: "bar list \<Rightarrow> int \<Rightarrow> py_error + bar" where
  "df_loc df d =
     (case find (\<lambda>b. bar_date b = d) df of None \<Rightarrow> Inl KeyError | Some row \<Rightarrow> Inr row)"

text \<open>
  \<open>index.get_loc(key, method='ffill')\<close> on an increasing index: the position of the
  last entry that is not after the key, \<open>KeyError\<close> when every entry is after it.
\<close>

definition get_loc_ffill :: "int list \<Rightarrow> int \<Rightarrow> py_error + nat" where
  "get_loc_ffill idx key =
     (let n = length (takeWhile (\<lambda>d. d \<le> key) idx)
      in if n = 0 then Inl KeyError else Inr (n - 1))"

text \<open>Python's slice \<open>xs[:n]\<close>; a negative \<open>n\<close> counts from the end.\<close>

definition py_take :: "int \<Rightarrow> 'a list \<Rightarrow> 'a list" where
  "py_take n xs = (if 0 \<le> n then take (nat n) xs else take (length xs - nat (- n)) xs)"

text \<open>
  The reaction of the price to one event: the highest high and the lowest low of the
  window, each relative to the close \<open>t_close\<close> of the event's day.
\<close>

definition reaction :: "bar list \<Rightarrow> real \<Rightarrow> real \<times> real" where
  "reaction window t_close =
     (let perc_gain = (Max (set (map bar_high window)) - t_close) / t_close;
          perc_drawdown = (Min (set (map bar_low window)) - t_close) / t_close
      in (perc_gain, perc_drawdown))"

section \<open>analyzer.py\<close>

record fundamentals =
  eps_beat_rate :: real
  avg_eps_surprise_pct :: real
  revenue_growth_trend :: real
  analyst_score :: real

text \<open>The defaults \<open>get_fundamental_metrics\<close> starts from and returns without a client.\<close>

definition neutral_fundamentals :: fundamentals where
  "neutral_fundamentals =
     \<lparr>eps_beat_rate = 0.5, avg_eps_surprise_pct = 0.0,
      revenue_growth_trend = 0.5, analyst_score = 0.5\<rparr>"

text \<open>
  The dictionary both analysis paths return. The estimated-earnings path leaves the key
  \<open>revenue_growth\<close> out.
\<close>

record analysis =
  ticker :: string
  score :: real
  price_score :: real
  fundamental_score :: real
  avg_gain :: real
  avg_drawdown :: real
  frequency :: real
  result_eps_beat_rate :: real
  avg_eps_surprise :: real
  analyst_rating :: real
  revenue_growth :: "real option"

text \<open>
  "Calculate statistics" (analyzer.py, and word for word backtest\_full.py): frequency,
  average gain, average drawdown and price score of the collected reactions.
\<close>

definition price_statistics :: "real list \<Rightarrow> real list \<Rightarrow> real \<times> real \<times> real \<times> real" where
  "price_statistics all_gains all_drawdowns =
     (let positive_gains = filter (\<lambda>g. 0.01 < g) all_gains;
          negative_drawdowns = filter (\<lambda>d. d < 0) all_drawdowns;
          frequency =
            (if all_gains \<noteq> []
             then real (length positive_gains) / real (length all_gains) else 0);
          avg_gain =
            (if positive_gains \<noteq> []
             then sum_list positive_gains / real (length positive_gains) else 0);
          avg_drawdown =
            (if negative_drawdowns \<noteq> []
             then sum_list negative_drawdowns / real (length negative_drawdowns)
             else -0.05);
          price_score = frequency * avg_gain
      in (frequency, avg_gain, avg_drawdown, price_score))"

text \<open>"Calculate fundamental score" (the same text in both files).\<close>

definition fundamental_score_of :: "fundamentals \<Rightarrow> real" where
  "fundamental_score_of f =
     (let normalized_eps_surprise = min (max (avg_eps_surprise_pct f / 40.0 + 0.5) 0.0) 1.0
      in eps_beat_rate f * 0.5 + normalized_eps_surprise * 0.3
         + analyst_score f * 0.15 + revenue_growth_trend f * 0.05)"

text \<open>
  The body of the loop over the relevant earnings dates. \<open>Inr None\<close> is the
  \<open>continue\<close> of an empty window; an exception is caught by the loop, which goes on
  with the next date.
\<close>

definition next_5_trading_days :: "bar list \<Rightarrow> nat \<Rightarrow> bar list" where
  \<comment> \<open>\<open>hist.iloc[t_idx + 1 : t_idx + 6]\<close>\<close>
  "next_5_trading_days hist t_idx = take 5 (drop (t_idx + 1) hist)"

definition analyze_event :: "bar list \<Rightarrow> int \<Rightarrow> py_error + (real \<times> real) option" where
  "analyze_event hist earnings_date =
     (case get_loc_ffill (map bar_date hist) earnings_date of
        Inl e \<Rightarrow> Inl e
      | Inr t_idx \<Rightarrow>
          (let t_close = bar_close (hist ! t_idx);
               window = next_5_trading_days hist t_idx
           in if window = [] then Inr None
              else Inr (Some (reaction window t_close))))"

fun collect_events :: "bar list \<Rightarrow> int list \<Rightarrow> (real \<times> real) list" where
  "collect_events hist [] = []"
| "collect_events hist (earnings_date # rest) =
     (case analyze_event hist earnings_date of
        Inr (Some sample) \<Rightarrow> sample # collect_events hist rest
      | _ \<Rightarrow> collect_events hist rest)"

text \<open>
  \<open>analyze_stock_earnings\<close>. What the data provider returns is an argument: the
  earnings dates (\<open>None\<close> when there are none), the cutoff date "today minus
  \<open>history_years\<close> years", the price history and the fundamental metrics.
\<close>

definition analyze_stock_earnings ::
  "string \<Rightarrow> int list option \<Rightarrow> int \<Rightarrow> bar list \<Rightarrow> fundamentals \<Rightarrow> analysis option" where
  "analyze_stock_earnings tk earnings_dates cutoff_date hist fund =
     (case earnings_dates of
        None \<Rightarrow> None
      | Some dates \<Rightarrow>
          if dates = [] then None
          else
            (let relevant_dates = filter (\<lambda>d. cutoff_date \<le> d) dates in
             if length relevant_dates < 4 then None
             else if hist = [] then None
             else
               (let samples = collect_events hist relevant_dates;
                    all_gains = map fst samples;
                    all_drawdowns = map snd samples
                in if all_gains = [] then None
                   else
                     (case price_statistics all_gains all_drawdowns of
                        (frq, gain, drawdown, pscore) \<Rightarrow>
                          (let fscore = fundamental_score_of fund;
                               final_score = pscore * 0.7 + fscore * 0.3
                           in Some \<lparr>ticker = tk, score = final_score, price_score = pscore,
                                     fundamental_score = fscore, avg_gain = gain,
                                     avg_drawdown = drawdown, frequency = frq,
                                     result_eps_beat_rate = eps_beat_rate fund,
                                     avg_eps_surprise = avg_eps_surprise_pct fund,
                                     analyst_rating = analyst_score fund,
                                     revenue_growth = Some (revenue_growth_trend fund)\<rparr>)))))"

section \<open>backtest\_full.py: the estimated-earnings analysis\<close>

text \<open>The \<open>while\<close> loop that steps back ninety days at a time down to the cutoff.\<close>

function estimate_back :: "int \<Rightarrow> int \<Rightarrow> int list" where
  "estimate_back current_est cutoff =
     (if cutoff \<le> current_est
      then current_est # estimate_back (current_est - 90) cutoff else [])"
  by pat_completeness auto
termination
  by (relation "measure (\<lambda>(current_est, cutoff). nat (current_est - cutoff + 1))") auto

definition past_earnings_dates :: "int \<Rightarrow> int list" where
  "past_earnings_dates upcoming_earnings_date =
     estimate_back (upcoming_earnings_date - 90) (upcoming_earnings_date - 730)"

text \<open>The body of the loop over the estimated dates.\<close>

definition closest_trading_day :: "bar list \<Rightarrow> int \<Rightarrow> int option" where
  "closest_trading_day df earnings_est_date =
     (let idx = map bar_date df in
      if earnings_est_date \<notin> set idx
      then (case filter (\<lambda>d. earnings_est_date \<le> d) idx of
              [] \<Rightarrow> None
            | nearest_idx # _ \<Rightarrow> Some nearest_idx)
      else Some earnings_est_date)"

definition future_dates :: "bar list \<Rightarrow> int \<Rightarrow> bar list" where
  \<comment> \<open>the rows of \<open>[d for d in df.index if d > earnings_est_date][:5]\<close>\<close>
  "future_dates df earnings_est_date =
     take 5 (filter (\<lambda>b. earnings_est_date < bar_date b) df)"

definition analyze_estimate :: "bar list \<Rightarrow> int \<Rightarrow> py_error + (real \<times> real) option" where
  "analyze_estimate df earnings_est_date =
     (case closest_trading_day df earnings_est_date of
        None \<Rightarrow> Inr None
      | Some est_date \<Rightarrow>
          (case df_loc df est_date of
             Inl e \<Rightarrow> Inl e
           | Inr row \<Rightarrow>
               (let t_close = bar_close row;
                    window = future_dates df est_date
                in if length window < 3 then Inr None
                   else Inr (Some (reaction window t_close)))))"

fun collect_estimates :: "bar list \<Rightarrow> int list \<Rightarrow> (real \<times> real) list" where
  "collect_estimates df [] = []"
| "collect_estimates df (earnings_est_date # rest) =
     (case analyze_estimate df earnings_est_date of
        Inr (Some sample) \<Rightarrow> sample # collect_estimates df rest
      | _ \<Rightarrow> collect_estimates df rest)"

text \<open>
  \<open>analyze_stock_history\<close>. The bars the data client returns are an argument
  (\<open>None\<close> when the ticker is missing from the answer), and so are the fundamental
  metrics.
\<close>

definition analyze_stock_history ::
  "string \<Rightarrow> int \<Rightarrow> bar list option \<Rightarrow> fundamentals \<Rightarrow> analysis option" where
  "analyze_stock_history tk upcoming_earnings_date bars fund =
     (let dates = past_earnings_dates upcoming_earnings_date in
      if length dates < 3 then None
      else
        (case bars of
           None \<Rightarrow> None
         | Some df \<Rightarrow>
             if df = [] then None
             else
               (let samples = collect_estimates df dates;
                    all_gains = map fst samples;
                    all_drawdowns = map snd samples
                in if all_gains = [] \<or> length all_gains < 3 then None
                   else
                     (case price_statistics all_gains all_drawdowns of
                        (frq, gain, drawdown, pscore) \<Rightarrow>
                          (let fscore = fundamental_score_of fund;
                               final_score = pscore * 0.7 + fscore * 0.3
                           in if eps_beat_rate fund < 0.3 then None
                              else Some \<lparr>ticker = tk, score = final_score,
                                     price_score = pscore, fundamental_score = fscore,
                                     avg_gain = gain, avg_drawdown = drawdown,
                                     frequency = frq,
                                     result_eps_beat_rate = eps_beat_rate fund,
                                     avg_eps_surprise = avg_eps_surprise_pct fund,
                                     analyst_rating = analyst_score fund,
                                     revenue_growth = None\<rparr>)))))"

section \<open>backtester.py\<close>

text \<open>The dictionary \<open>simulate_trade\<close> returns.\<close>

record trade =
  trade_ticker :: string
  entry_date :: int
  exit_date :: int
  entry_price :: real
  exit_price :: real
  pnl :: real
  pnl_percent :: real
  exit_reason :: string
  take_profit_price :: real
  stop_loss_price :: real

text \<open>"Find entry price": the entry date itself, or the first later date of the index.\<close>

definition resolve_entry_date :: "bar list \<Rightarrow> int \<Rightarrow> int option" where
  "resolve_entry_date df entry =
     (if entry \<notin> set (map bar_date df)
      then (case filter (\<lambda>d. entry \<le> d) (map bar_date df) of
              [] \<Rightarrow> None
            | nearest # _ \<Rightarrow> Some nearest)
      else Some entry)"

text \<open>"Get holding period data": the rows of the first \<open>hold_days\<close> dates after the entry.\<close>

definition holding_period :: "bar list \<Rightarrow> int \<Rightarrow> int \<Rightarrow> bar list" where
  "holding_period df entry hold_days =
     py_take hold_days (filter (\<lambda>b. entry < bar_date b) df)"

text \<open>
  "Simulate each day": the \<open>for\<close> loop with its two \<open>break\<close>s. The result is the
  exit date, price and reason set before a \<open>break\<close>, or \<open>None\<close> when the loop runs to
  its end.
\<close>

fun simulate_days :: "real \<Rightarrow> real \<Rightarrow> bar list \<Rightarrow> (int \<times> real \<times> string) option" where
  "simulate_days tp sl [] = None"
| "simulate_days tp sl (row # rest) =
     (if tp \<le> bar_high row then Some (bar_date row, tp, ''Take profit hit'')
      else if bar_low row \<le> sl then Some (bar_date row, sl, ''Stop loss hit'')
      else simulate_days tp sl rest)"

text \<open>
  \<open>simulate_trade\<close>. The bars the data client returns for the ticker around the entry
  date are an argument, \<open>None\<close> when there is no client or no data.
\<close>

definition simulate_trade ::
  "bar list option \<Rightarrow> string \<Rightarrow> int \<Rightarrow> real \<Rightarrow> real \<Rightarrow> int \<Rightarrow> trade option" where
  "simulate_trade bars tk entry take_profit_pct stop_loss_pct hold_days =
     (case bars of
        None \<Rightarrow> None
      | Some df \<Rightarrow>
          if df = [] then None
          else
            (case resolve_entry_date df entry of
               None \<Rightarrow> None
             | Some entry' \<Rightarrow>
                 (case df_loc df entry' of
                    Inl e \<Rightarrow> None
                  | Inr entry_row \<Rightarrow>
                      (let price = bar_close entry_row;
                           tp = price * (1 + take_profit_pct);
                           sl = price * (1 + stop_loss_pct);
                           future = holding_period df entry' hold_days
                       in if future = [] then None
                          else
                            (case (case simulate_days tp sl future of
                                     Some hit \<Rightarrow> hit
                                   | None \<Rightarrow>
                                       (bar_date (last future), bar_close (last future),
                                        ''Hold period expired'')) of
                               (exit_d, exit_p, reason) \<Rightarrow>
                                 (let diff = exit_p - price;
                                      pnl_pct = diff / price * 100
                                  in Some \<lparr>trade_ticker = tk, entry_date = entry',
                                            exit_date = exit_d, entry_price = price,
                                            exit_price = exit_p, pnl = diff,
                                            pnl_percent = pnl_pct, exit_reason = reason,
                                            take_profit_price = tp,
                                            stop_loss_price = sl\<rparr>))))))"

text \<open>A trade after the backtest has booked it: the same dictionary with more keys.\<close>

record booked_trade = trade +
  shares :: real
  position_size :: real
  trade_pnl :: real
  capital_after :: real

record summary =
  initial_capital :: real
  final_capital :: real
  total_pnl :: real
  total_pnl_percent :: real
  num_trades :: nat
  num_wins :: nat
  num_losses :: nat
  win_rate :: real
  avg_win :: real
  avg_loss :: real
  profit_factor :: real
  max_drawdown :: real

datatype report = No_trades_executed | Statistics summary

text \<open>The running peak-to-trough loop over a ledger of capital values.\<close>

fun drawdown_scan :: "real \<Rightarrow> real \<Rightarrow> real list \<Rightarrow> py_error + real" where
  "drawdown_scan max_capital max_dd [] = Inr max_dd"
| "drawdown_scan max_capital max_dd (capital # rest) =
     (let max_capital = max max_capital capital in
      case py_div (max_capital - capital) max_capital of
        Inl e \<Rightarrow> Inl e
      | Inr drawdown \<Rightarrow> drawdown_scan max_capital (max max_dd drawdown) rest)"

text \<open>
  The statistics both backtests compute from the booked trades; \<open>ledger\<close> is the list
  of capital values the drawdown loop walks (\<open>capital_after\<close> of the trades in
  \<open>backtest_strategy\<close>, the daily log in \<open>calculate_statistics\<close>).
\<close>

definition trade_statistics ::
  "real \<Rightarrow> real \<Rightarrow> booked_trade list \<Rightarrow> real list \<Rightarrow> py_error + report" where
  "trade_statistics initial capital trades ledger =
     (if trades = [] then Inr No_trades_executed
      else
        (let total = capital - initial in
         case py_div total initial of
           Inl e \<Rightarrow> Inl e
         | Inr q \<Rightarrow>
             (let total_pct = q * 100;
                  wins = filter (\<lambda>t. 0 < pnl t) trades;
                  losses = filter (\<lambda>t. pnl t \<le> 0) trades;
                  rate =
                    (if trades \<noteq> []
                     then real (length wins) / real (length trades) * 100 else 0);
                  win = (if wins \<noteq> []
                         then sum_list (map trade_pnl wins) / real (length wins) else 0);
                  loss = (if losses \<noteq> []
                          then sum_list (map trade_pnl losses) / real (length losses)
                          else 0)
              in case (if loss \<noteq> 0 then py_div win loss else Inr 0) of
                   Inl e \<Rightarrow> Inl e
                 | Inr ratio \<Rightarrow>
                     (let factor = (if loss \<noteq> 0 then \<bar>ratio\<bar> else 0) in
                      case drawdown_scan initial 0 ledger of
                        Inl e \<Rightarrow> Inl e
                      | Inr max_dd \<Rightarrow>
                          Inr (Statistics
                            \<lparr>initial_capital = initial, final_capital = capital,
                             total_pnl = total, total_pnl_percent = total_pct,
                             num_trades = length trades, num_wins = length wins,
                             num_losses = length losses, win_rate = rate,
                             avg_win = win, avg_loss = loss, profit_factor = factor,
                             max_drawdown = max_dd * 100\<rparr>)))))"

text \<open>One entry of \<open>test_stocks\<close>; the two averages are optional keys.\<close>

record test_stock =
  stock_ticker :: string
  stock_entry_date :: int
  stock_avg_gain :: "real option"
  stock_avg_drawdown :: "real option"

text \<open>
  The loop of \<open>backtest_strategy\<close> over the stocks: each simulated trade is booked with
  85 percent of the current capital. \<open>market tk d\<close> is what the data client returns
  for the ticker around the date.
\<close>

fun book_trades ::
  "(string \<Rightarrow> int \<Rightarrow> bar list option) \<Rightarrow> real \<Rightarrow> test_stock list \<Rightarrow> booked_trade list \<times> real" where
  "book_trades market capital [] = ([], capital)"
| "book_trades market capital (stock_data # rest) =
     (let gain = (case stock_avg_gain stock_data of None \<Rightarrow> 0.10 | Some g \<Rightarrow> g);
          drawdown = (case stock_avg_drawdown stock_data of None \<Rightarrow> -0.08 | Some d \<Rightarrow> d)
      in case simulate_trade (market (stock_ticker stock_data) (stock_entry_date stock_data))
                (stock_ticker stock_data) (stock_entry_date stock_data) gain
                (drawdown * 1.1) 5 of
           None \<Rightarrow> book_trades market capital rest
         | Some result \<Rightarrow>
             (let size = capital * 0.85;
                  n = size / entry_price result;
                  gained = n * pnl result;
                  capital = capital + gained;
                  booked = trade.extend result
                    \<lparr>shares = n, position_size = size, trade_pnl = gained,
                     capital_after = capital\<rparr>
              in case book_trades market capital rest of
                   (trades, final) \<Rightarrow> (booked # trades, final)))"

definition backtest_strategy ::
  "(string \<Rightarrow> int \<Rightarrow> bar list option) \<Rightarrow> test_stock list \<Rightarrow> real \<Rightarrow> py_error + report" where
  "backtest_strategy market test_stocks initial =
     (case book_trades market initial test_stocks of
        (trades, capital) \<Rightarrow>
          trade_statistics initial capital trades (map capital_after trades))"

section \<open>backtest\_full.py: the statistics of a full backtest\<close>

text \<open>The fields of \<open>FullBacktester\<close> the statistics read.\<close>

record full_backtester =
  fb_capital :: real
  fb_initial_capital :: real
  fb_trades :: "booked_trade list"
  fb_daily_log :: "(int \<times> real) list"

definition calculate_statistics :: "full_backtester \<Rightarrow> py_error + report" where
  "calculate_statistics fb =
     trade_statistics (fb_initial_capital fb) (fb_capital fb) (fb_trades fb)
       (map snd (fb_daily_log fb))"

section \<open>The statistics as the specification words them\<close>

definition mean :: "real list \<Rightarrow> real" where
  "mean xs = sum_list xs / real (length xs)"

text \<open>A reaction sample is the pair of its gain and its drawdown.\<close>

definition gain_samples :: "(real \<times> real) list \<Rightarrow> (real \<times> real) list" where
  "gain_samples samples = filter (\<lambda>s. 0.01 < fst s) samples"

definition drawdown_samples :: "(real \<times> real) list \<Rightarrow> (real \<times> real) list" where
  "drawdown_samples samples = filter (\<lambda>s. snd s < 0) samples"

definition spec_frequency :: "(real \<times> real) list \<Rightarrow> real" where
  "spec_frequency samples = real (length (gain_samples samples)) / real (length samples)"

definition spec_avg_gain :: "(real \<times> real) list \<Rightarrow> real" where
  "spec_avg_gain samples =
     (if gain_samples samples = [] then 0 else mean (map fst (gain_samples samples)))"

definition spec_avg_drawdown :: "(real \<times> real) list \<Rightarrow> real" where
  "spec_avg_drawdown samples =
     (if drawdown_samples samples = [] then -0.05
      else mean (map snd (drawdown_samples samples)))"

definition clamp :: "real \<Rightarrow> real \<Rightarrow> real \<Rightarrow> real" where
  "clamp lo hi x = max lo (min hi x)"

text \<open>
  When each analysis path skips an event: the estimated-earnings path when no trading
  day is found on or after the estimate or fewer than three trading days follow it, the
  real-calendar path when the date cannot be located in the history or no trading day
  follows it.
\<close>

definition short_window :: "bar list \<Rightarrow> int \<Rightarrow> bool" where
  "short_window df d =
     (case closest_trading_day df d of
        None \<Rightarrow> True
      | Some est_date \<Rightarrow> length (future_dates df est_date) < 3)"

definition empty_window :: "bar list \<Rightarrow> int \<Rightarrow> bool" where
  "empty_window hist d =
     (case get_loc_ffill (map bar_date hist) d of
        Inl e \<Rightarrow> True
      | Inr t_idx \<Rightarrow> next_5_trading_days hist t_idx = [])"


definition mean_trade_pnl :: "booked_trade list \<Rightarrow> real" where
  "mean_trade_pnl ts = (if ts = [] then 0 else mean (map trade_pnl ts))"

section \<open>Example data\<close>

text \<open>Seven trading days of one ticker.\<close>

definition example_history :: "bar list" where
  "example_history =
     [\<lparr>bar_date = 1, bar_open = 100, bar_high = 101, bar_low = 99, bar_close = 100, bar_volume = 1000\<rparr>,
      \<lparr>bar_date = 2, bar_open = 100, bar_high = 105, bar_low = 97, bar_close = 100, bar_volume = 1000\<rparr>,
      \<lparr>bar_date = 3, bar_open = 100, bar_high = 112, bar_low = 98, bar_close = 100, bar_volume = 1000\<rparr>,
      \<lparr>bar_date = 4, bar_open = 100, bar_high = 103, bar_low = 96, bar_close = 100, bar_volume = 1000\<rparr>,
      \<lparr>bar_date = 5, bar_open = 100, bar_high = 102, bar_low = 95, bar_close = 100, bar_volume = 1000\<rparr>,
      \<lparr>bar_date = 6, bar_open = 100, bar_high = 104, bar_low = 99, bar_close = 100, bar_volume = 1000\<rparr>,
      \<lparr>bar_date = 7, bar_open = 100, bar_high = 106, bar_low = 98, bar_close = 103, bar_volume = 1000\<rparr>]"

text \<open>The four reaction samples of the specification's first scenario.\<close>

definition scenario_samples :: "(real \<times> real) list" where
  "scenario_samples = [(0.05, -0.02), (-0.02, -0.06), (0.03, -0.01), (0.015, -0.03)]"

text \<open>
  What the two analysis paths return on the example history: the real-calendar path for
  the earnings dates 1, 2, 5 and 6, the estimated-earnings path for an upcoming
  earnings date 91.
\<close>

definition example_analysis :: analysis where
  "example_analysis =
     \<lparr>ticker = ''ACME'', score = 213 / 1000, price_score = 9 / 100,
      fundamental_score = 1 / 2, avg_gain = 9 / 100, avg_drawdown = - 7 / 200,
      frequency = 1, result_eps_beat_rate = 1 / 2, avg_eps_surprise = 0,
      analyst_rating = 1 / 2, revenue_growth = Some (1 / 2)\<rparr>"

definition example_estimate_analysis :: analysis where
  "example_estimate_analysis =
     \<lparr>ticker = ''ACME'', score = 234 / 1000, price_score = 12 / 100,
      fundamental_score = 1 / 2, avg_gain = 12 / 100, avg_drawdown = - 1 / 20,
      frequency = 1, result_eps_beat_rate = 1 / 2, avg_eps_surprise = 0,
      analyst_rating = 1 / 2, revenue_growth = None\<rparr>"


text \<open>
  An entry day closing at 100 and two days after it: in \<open>gap_history\<close> the second day
  after the entry is the first to reach a trigger, and its range spans both the take-profit
  level 110 and the stop-loss level 92.
\<close>

definition gap_history :: "bar list" where
  "gap_history =
     [\<lparr>bar_date = 1, bar_open = 100, bar_high = 101, bar_low = 99, bar_close = 100, bar_volume = 1000\<rparr>,
      \<lparr>bar_date = 2, bar_open = 100, bar_high = 105, bar_low = 97, bar_close = 100, bar_volume = 1000\<rparr>,
      \<lparr>bar_date = 3, bar_open = 100, bar_high = 112, bar_low = 90, bar_close = 100, bar_volume = 1000\<rparr>]"

text \<open>
  A backtest of one stock on \<open>gap_history\<close>, which ends in a single winning trade, and
  a full backtester after a winning and a losing trade.
\<close>

definition example_market :: "string \<Rightarrow> int \<Rightarrow> bar list option" where
  "example_market tk d = (if tk = ''ACME'' then Some gap_history else None)"

definition example_stocks :: "test_stock list" where
  "example_stocks =
     [\<lparr>stock_ticker = ''ACME'', stock_entry_date = 1, stock_avg_gain = Some 0.10,
       stock_avg_drawdown = None\<rparr>]"

definition example_strategy_summary :: summary where
  "example_strategy_summary =
     \<lparr>initial_capital = 10000, final_capital = 10850, total_pnl = 850,
      total_pnl_percent = 17 / 2, num_trades = 1, num_wins = 1, num_losses = 0,
      win_rate = 100, avg_win = 850, avg_loss = 0, profit_factor = 0, max_drawdown = 0\<rparr>"

definition winning_trade :: booked_trade where
  "winning_trade =
     \<lparr>trade_ticker = ''ACME'', entry_date = 1, exit_date = 3, entry_price = 100,
      exit_price = 110, pnl = 10, pnl_percent = 10, exit_reason = ''Take profit hit'',
      take_profit_price = 110, stop_loss_price = 91.2, shares = 85, position_size = 8500,
      trade_pnl = 850, capital_after = 10850\<rparr>"

definition losing_trade :: booked_trade where
  "losing_trade =
     \<lparr>trade_ticker = ''ACME'', entry_date = 8, exit_date = 9, entry_price = 100,
      exit_price = 92, pnl = -8, pnl_percent = -8, exit_reason = ''Stop loss hit'',
      take_profit_price = 110, stop_loss_price = 92, shares = 92.225,
      position_size = 9222.5, trade_pnl = -737.8, capital_after = 10112.2\<rparr>"

definition example_backtester :: full_backtester where
  "example_backtester =
     \<lparr>fb_capital = 10112.2, fb_initial_capital = 10000,
      fb_trades = [winning_trade, losing_trade],
      fb_daily_log = [(0, 10000), (3, 10850), (9, 10112.2)]\<rparr>"

definition example_summary :: summary where
  "example_summary =
     \<lparr>initial_capital = 10000, final_capital = 10112.2, total_pnl = 112.2,
      total_pnl_percent = 1.122, num_trades = 2, num_wins = 1, num_losses = 1,
      win_rate = 50, avg_win = 850, avg_loss = -737.8, profit_factor = 4250 / 3689,
      max_drawdown = 6.8\<rparr>"

section \<open>Properties of the risk manager\<close>

lemma hwm_le_refl: "hwm_le h h"
  by (cases h) simp_all

lemma hwm_le_trans: "hwm_le a b \<Longrightarrow> hwm_le b c \<Longrightarrow> hwm_le a c"
  by (cases a; cases b; cases c) simp_all

lemma hwm_call:
  "max_drawdown_balance (fst (call fmt rm c)) =
     (case c of
        Set_daily_start_balance b \<Rightarrow>
          Some (case max_drawdown_balance rm of None \<Rightarrow> b | Some h \<Rightarrow> max h b)
      | _ \<Rightarrow> max_drawdown_balance rm)"
  by (cases c) (simp_all add: call_def set_daily_start_balance_def split: option.split)

lemma hwm_call_le:
  "hwm_le (max_drawdown_balance rm) (max_drawdown_balance (fst (call fmt rm c)))"
  by (cases c; cases "max_drawdown_balance rm") (simp_all add: hwm_call hwm_le_refl)

lemma hwm_session_le:
  "hwm_le (max_drawdown_balance rm) (max_drawdown_balance (session fmt rm cs))"
proof (induction cs arbitrary: rm)
  case Nil
  show ?case by (simp add: hwm_le_refl)
next
  case (Cons c cs)
  have "hwm_le (max_drawdown_balance rm) (max_drawdown_balance (fst (call fmt rm c)))"
    by (rule hwm_call_le)
  moreover have "hwm_le (max_drawdown_balance (fst (call fmt rm c)))
      (max_drawdown_balance (session fmt (fst (call fmt rm c)) cs))"
    by (rule Cons.IH)
  ultimately show ?case
    by (simp add: hwm_le_trans)
qed

lemma session_append: "session fmt rm (cs @ ds) = session fmt (session fmt rm cs) ds"
  by (induction cs arbitrary: rm) simp_all

lemma session_without_update:
  "session fmt rm (filter (\<lambda>c. \<not> is_balance_update c) cs) = rm"
proof (induction cs)
  case Nil
  show ?case by simp
next
  case (Cons c cs)
  then show ?case
    by (cases c) (simp_all add: call_def)
qed

text \<open>
  C10. Before \<open>set_daily_start_balance\<close> has ever been called both balances are unset:
  the daily-loss check and the drawdown check each answer "allowed, loss 0.0", and
  \<open>can_trade\<close> answers \<open>(True, "All risk checks passed")\<close> whatever the balance and
  whatever the configured limits. This stays so after any calls other than the balance
  update.
\<close>

theorem can_trade_before_first_balance:
  "check_daily_loss_limit (new_risk_manager cfg) balance = Inr (True, 0)
   \<and> check_max_drawdown (new_risk_manager cfg) balance = Inr (True, 0)
   \<and> can_trade fmt (new_risk_manager cfg) balance = Inr (True, ''All risk checks passed'')
   \<and> can_trade fmt
        (session fmt (new_risk_manager cfg) (filter (\<lambda>c. \<not> is_balance_update c) cs))
        balance = Inr (True, ''All risk checks passed'')"
  by (simp add: session_without_update check_daily_loss_limit_def check_max_drawdown_def
      can_trade_def new_risk_manager_def)

lemma round_half_even_near: "\<bar>of_int (round_half_even y) - y\<bar> \<le> 1 / 2"
proof -
  have "of_int \<lfloor>y\<rfloor> \<le> y" and "y < of_int \<lfloor>y\<rfloor> + 1"
    by linarith+
  then show ?thesis
    by (auto simp: round_half_even_def Let_def)
qed

lemma py_round2_near: "\<bar>py_round2 x - x\<bar> \<le> 1 / 200"
  using round_half_even_near [of "x * 100"] by (simp add: py_round2_def field_simps)

lemma round_half_even_nearest:
  "\<bar>of_int (round_half_even y) - y\<bar> \<le> \<bar>of_int k - y\<bar>"
proof (cases "k = round_half_even y")
  case True
  then show ?thesis by simp
next
  case False
  then have "1 \<le> \<bar>k - round_half_even y\<bar>"
    by linarith
  then have "(1 :: real) \<le> \<bar>of_int k - of_int (round_half_even y)\<bar>"
    by (metis of_int_1 of_int_abs of_int_diff of_int_le_iff)
  with round_half_even_near [of y] show ?thesis
    by linarith
qed

lemma py_round2_nearest: "\<bar>py_round2 x - x\<bar> \<le> \<bar>of_int k / 100 - x\<bar>"
  using round_half_even_nearest [of "x * 100" k] by (simp add: py_round2_def field_simps)

lemma py_round2_hundredths: "py_round2 x * 100 = of_int (round_half_even (x * 100))"
  by (simp add: py_round2_def)

lemma calculate_stop_loss_clamp:
  "calculate_stop_loss e d = py_round2 (e * (1 + clamped_stop_percent d))"
proof -
  define p where "p = d * 1.1"
  have "(let q = (if -0.08 < p then -0.08 else p) in if q < -0.20 then -0.20 else q)
      = max (-0.20) (min (-0.08) p)"
    by (auto simp: Let_def max_def min_def)
  then show ?thesis
    unfolding calculate_stop_loss_def clamped_stop_percent_def Let_def p_def
    by presburger
qed

text \<open>
  C3. The stop-loss price is \<open>entry_price * (1 + pct)\<close> rounded to two decimals: it is
  a whole number of hundredths, and no whole number of hundredths is nearer to the
  unrounded price (so it is within half a cent of it). Here \<open>pct\<close> is
  \<open>avg_drawdown * 1.1\<close> with every value above \<open>-0.08\<close> replaced by \<open>-0.08\<close> and
  every value below \<open>-0.20\<close> replaced by \<open>-0.20\<close>; the percentage used therefore
  lies in \<open>[-0.20, -0.08]\<close>. An entry price of 100 with an average drawdown of
  \<open>-0.25\<close> gives 80.00, and one of \<open>1 / 3\<close> with \<open>-0.1\<close> gives 0.30.
\<close>

theorem stop_loss_clamped:
  "calculate_stop_loss entry drawdown =
     py_round2 (entry * (1 + clamped_stop_percent drawdown))
   \<and> clamped_stop_percent drawdown =
       (if -0.08 < drawdown * 1.1 then -0.08
        else if drawdown * 1.1 < -0.20 then -0.20 else drawdown * 1.1)
   \<and> -0.20 \<le> clamped_stop_percent drawdown
   \<and> clamped_stop_percent drawdown \<le> -0.08
   \<and> \<bar>calculate_stop_loss entry drawdown
        - entry * (1 + clamped_stop_percent drawdown)\<bar> \<le> 1 / 200
   \<and> calculate_stop_loss 100 (-0.25) = 80
   \<and> (\<exists>cents :: int. calculate_stop_loss entry drawdown = of_int cents / 100)
   \<and> (\<forall>cents :: int.
        \<bar>calculate_stop_loss entry drawdown - entry * (1 + clamped_stop_percent drawdown)\<bar>
        \<le> \<bar>of_int cents / 100 - entry * (1 + clamped_stop_percent drawdown)\<bar>)
   \<and> calculate_stop_loss (1 / 3) (-0.1) = 3 / 10"
proof -
  have ex: "calculate_stop_loss 100 (-0.25) = 80"
    by (simp add: calculate_stop_loss_def py_round2_def round_half_even_def)
  have ex3: "calculate_stop_loss (1 / 3) (-0.1) = 3 / 10"
  proof -
    have "\<lfloor>(89 / 3 :: real)\<rfloor> = 29"
      by linarith
    then have "round_half_even (89 / 3) = 30"
      by (simp add: round_half_even_def)
    then show ?thesis
      by (simp add: calculate_stop_loss_def py_round2_def)
  qed
  have cents: "\<exists>cents :: int. calculate_stop_loss entry drawdown = of_int cents / 100"
    unfolding calculate_stop_loss_clamp py_round2_def by blast
  have nearest: "\<forall>cents :: int.
        \<bar>calculate_stop_loss entry drawdown - entry * (1 + clamped_stop_percent drawdown)\<bar>
        \<le> \<bar>of_int cents / 100 - entry * (1 + clamped_stop_percent drawdown)\<bar>"
    unfolding calculate_stop_loss_clamp using py_round2_nearest by blast
  have first: "calculate_stop_loss entry drawdown =
     py_round2 (entry * (1 + clamped_stop_percent drawdown))
   \<and> clamped_stop_percent drawdown =
       (if -0.08 < drawdown * 1.1 then -0.08
        else if drawdown * 1.1 < -0.20 then -0.20 else drawdown * 1.1)
   \<and> -0.20 \<le> clamped_stop_percent drawdown
   \<and> clamped_stop_percent drawdown \<le> -0.08
   \<and> \<bar>calculate_stop_loss entry drawdown
        - entry * (1 + clamped_stop_percent drawdown)\<bar> \<le> 1 / 200
   \<and> calculate_stop_loss 100 (-0.25) = 80"
    using py_round2_near [of "entry * (1 + clamped_stop_percent drawdown)"] ex
    by (simp add: calculate_stop_loss_clamp) (simp add: clamped_stop_percent_def max_def min_def)
  from first cents nearest ex3 show ?thesis
    by blast
qed

text \<open>
  C9. Over any sequence of calls on one risk manager the high-water mark
  (\<open>max_drawdown_balance\<close>) never decreases and is never unset again: the mark after a
  longer run of the session is at least the mark after any prefix of it. A single call
  changes the mark only when it is \<open>set_daily_start_balance\<close>, and then to the larger
  of the previous mark and the new daily start balance (to the balance itself when no
  mark was set yet); every other call leaves it as it was.
\<close>

theorem high_water_mark_monotone:
  "hwm_le (max_drawdown_balance (session fmt rm cs))
          (max_drawdown_balance (session fmt rm (cs @ ds)))
   \<and> max_drawdown_balance (fst (call fmt rm c)) =
       (case c of
          Set_daily_start_balance b \<Rightarrow>
            Some (case max_drawdown_balance rm of None \<Rightarrow> b | Some h \<Rightarrow> max h b)
        | _ \<Rightarrow> max_drawdown_balance rm)"
  by (simp add: session_append hwm_session_le hwm_call)

section \<open>Evaluating the example data\<close>

lemmas frame_defs =
  example_history_def get_loc_ffill_def next_5_trading_days_def reaction_def
  closest_trading_day_def future_dates_def df_loc_def

lemma example_events:
  "collect_events example_history [1, 2, 5, 6] =
     [(3 / 25, - 1 / 20), (3 / 25, - 1 / 20), (3 / 50, - 1 / 50), (3 / 50, - 1 / 50)]"
  by (simp add: analyze_event_def frame_defs)

lemma example_analysis_eval:
  "analyze_stock_earnings ''ACME'' (Some [1, 2, 5, 6]) 0 example_history neutral_fundamentals
     = Some example_analysis"
  by (simp add: analyze_stock_earnings_def example_events price_statistics_def
      fundamental_score_of_def neutral_fundamentals_def Let_def example_analysis_def
      del: collect_events.simps)
    (simp add: example_history_def)

lemma past_earnings_dates_eq:
  "past_earnings_dates u =
     [u - 90, u - 180, u - 270, u - 360, u - 450, u - 540, u - 630, u - 720]"
  by (simp add: past_earnings_dates_def estimate_back.simps)

lemma example_estimates:
  "collect_estimates example_history (past_earnings_dates 91) =
     [(3 / 25, - 1 / 20), (3 / 25, - 1 / 20), (3 / 25, - 1 / 20), (3 / 25, - 1 / 20),
      (3 / 25, - 1 / 20), (3 / 25, - 1 / 20), (3 / 25, - 1 / 20), (3 / 25, - 1 / 20)]"
  by (simp add: past_earnings_dates_eq analyze_estimate_def frame_defs)

lemma example_estimate_analysis_eval:
  "analyze_stock_history ''ACME'' 91 (Some example_history) neutral_fundamentals
     = Some example_estimate_analysis"
  by (simp add: analyze_stock_history_def example_estimates price_statistics_def
      fundamental_score_of_def neutral_fundamentals_def Let_def
      example_estimate_analysis_def del: collect_estimates.simps)
    (simp add: example_history_def past_earnings_dates_eq)

section \<open>Properties of the reaction analysis\<close>

lemma filter_map_fst: "filter P (map fst xs) = map fst (filter (\<lambda>s. P (fst s)) xs)"
  by (induction xs) simp_all

lemma filter_map_snd: "filter P (map snd xs) = map snd (filter (\<lambda>s. P (snd s)) xs)"
  by (induction xs) simp_all

lemma price_statistics_spec:
  "samples \<noteq> [] \<Longrightarrow>
   price_statistics (map fst samples) (map snd samples) =
     (spec_frequency samples, spec_avg_gain samples, spec_avg_drawdown samples,
      spec_frequency samples * spec_avg_gain samples)"
  by (simp add: price_statistics_def Let_def spec_frequency_def spec_avg_gain_def
      spec_avg_drawdown_def gain_samples_def drawdown_samples_def mean_def
      filter_map_fst filter_map_snd)

lemma statistics_fields:
  assumes "price_statistics (map fst found) (map snd found) = (a, b, c, e)" and "found \<noteq> []"
  shows "a = spec_frequency found \<and> b = spec_avg_gain found
     \<and> c = spec_avg_drawdown found \<and> e = a * b"
  using assms by (auto simp: price_statistics_spec)

lemma price_statistics_bounds:
  assumes a: "price_statistics gs ds = (frq, gain, dd, ps)"
  shows "0 \<le> frq \<and> frq \<le> 1 \<and> 0 \<le> gain \<and> ps = frq * gain \<and> 0 \<le> ps"
proof -
  have pos: "0 \<le> sum_list (filter (\<lambda>g. 0.01 < g) gs)"
    by (rule sum_list_nonneg) auto
  have len: "length (filter (\<lambda>g. 0.01 < g) gs) \<le> length gs"
    by (rule length_filter_le)
  have f: "frq = (if gs \<noteq> []
       then real (length (filter (\<lambda>g. 0.01 < g) gs)) / real (length gs) else 0)"
    and g: "gain = (if filter (\<lambda>g. 0.01 < g) gs \<noteq> []
       then sum_list (filter (\<lambda>g. 0.01 < g) gs) / real (length (filter (\<lambda>g. 0.01 < g) gs))
       else 0)"
    and p: "ps = frq * gain"
    using a by (auto simp: price_statistics_def Let_def)
  have f0: "0 \<le> frq" by (simp add: f)
  have f1: "frq \<le> 1" using len by (simp add: f divide_le_eq)
  have g0: "0 \<le> gain" using pos by (simp add: g)
  show ?thesis using f0 f1 g0 p by simp
qed

text \<open>What a result of either analysis path says about the path's inputs.\<close>

lemma analyze_stock_earnings_Some:
  assumes "analyze_stock_earnings tk eds cutoff hist fund = Some r"
  shows "\<exists>dates. eds = Some dates \<and> 4 \<le> length (filter (\<lambda>d. cutoff \<le> d) dates) \<and> hist \<noteq> []
      \<and> collect_events hist (filter (\<lambda>d. cutoff \<le> d) dates) \<noteq> []
      \<and> price_statistics (map fst (collect_events hist (filter (\<lambda>d. cutoff \<le> d) dates)))
           (map snd (collect_events hist (filter (\<lambda>d. cutoff \<le> d) dates)))
         = (frequency r, avg_gain r, avg_drawdown r, price_score r)
      \<and> fundamental_score r = fundamental_score_of fund
      \<and> score r = price_score r * 0.7 + fundamental_score r * 0.3"
  using assms unfolding analyze_stock_earnings_def Let_def
  by (auto split: option.splits if_splits prod.splits)

lemma analyze_stock_history_Some:
  assumes "analyze_stock_history tk u bars fund = Some r"
  shows "\<exists>df. bars = Some df \<and> df \<noteq> []
      \<and> 3 \<le> length (collect_estimates df (past_earnings_dates u))
      \<and> price_statistics (map fst (collect_estimates df (past_earnings_dates u)))
           (map snd (collect_estimates df (past_earnings_dates u)))
         = (frequency r, avg_gain r, avg_drawdown r, price_score r)
      \<and> fundamental_score r = fundamental_score_of fund
      \<and> score r = price_score r * 0.7 + fundamental_score r * 0.3
      \<and> 0.3 \<le> eps_beat_rate fund"
  using assms unfolding analyze_stock_history_def Let_def
  by (auto split: option.splits if_splits prod.splits)

text \<open>
  C2. For a non-empty list of reaction samples the statistics are: frequency = the number
  of samples with a gain above 0.01 over the number of all samples; average gain = the
  mean gain of the samples with a gain above 0.01, and 0 when there is none; average
  drawdown = the mean drawdown of the samples with a drawdown below 0, and \<open>-0.05\<close>
  when there is none; price score = frequency times average gain. Whenever either analysis
  path returns a result, its fields are these statistics of the samples the path
  collected, and those samples are not empty.
\<close>

theorem reaction_statistics:
  "(samples \<noteq> [] \<longrightarrow>
      price_statistics (map fst samples) (map snd samples) =
        (spec_frequency samples, spec_avg_gain samples, spec_avg_drawdown samples,
         spec_frequency samples * spec_avg_gain samples))
   \<and> (analyze_stock_earnings tk eds cutoff hist fund = Some r \<longrightarrow>
        (\<exists>dates found. eds = Some dates
           \<and> found = collect_events hist (filter (\<lambda>d. cutoff \<le> d) dates) \<and> found \<noteq> []
           \<and> frequency r = spec_frequency found \<and> avg_gain r = spec_avg_gain found
           \<and> avg_drawdown r = spec_avg_drawdown found
           \<and> price_score r = frequency r * avg_gain r))
   \<and> (analyze_stock_history tk u bars fund = Some r' \<longrightarrow>
        (\<exists>df found. bars = Some df
           \<and> found = collect_estimates df (past_earnings_dates u) \<and> found \<noteq> []
           \<and> frequency r' = spec_frequency found \<and> avg_gain r' = spec_avg_gain found
           \<and> avg_drawdown r' = spec_avg_drawdown found
           \<and> price_score r' = frequency r' * avg_gain r'))"
proof (intro conjI impI)
  assume "samples \<noteq> []"
  then show "price_statistics (map fst samples) (map snd samples) =
        (spec_frequency samples, spec_avg_gain samples, spec_avg_drawdown samples,
         spec_frequency samples * spec_avg_gain samples)"
    by (rule price_statistics_spec)
next
  assume "analyze_stock_earnings tk eds cutoff hist fund = Some r"
  from analyze_stock_earnings_Some [OF this] obtain dates where
    d: "eds = Some dates" "collect_events hist (filter (\<lambda>d. cutoff \<le> d) dates) \<noteq> []"
    "price_statistics (map fst (collect_events hist (filter (\<lambda>d. cutoff \<le> d) dates)))
           (map snd (collect_events hist (filter (\<lambda>d. cutoff \<le> d) dates)))
         = (frequency r, avg_gain r, avg_drawdown r, price_score r)"
    by blast
  show "\<exists>dates found. eds = Some dates
           \<and> found = collect_events hist (filter (\<lambda>d. cutoff \<le> d) dates) \<and> found \<noteq> []
           \<and> frequency r = spec_frequency found \<and> avg_gain r = spec_avg_gain found
           \<and> avg_drawdown r = spec_avg_drawdown found
           \<and> price_score r = frequency r * avg_gain r"
    using d(1,2) statistics_fields [OF d(3,2)] by blast
next
  assume "analyze_stock_history tk u bars fund = Some r'"
  from analyze_stock_history_Some [OF this] obtain df where
    d: "bars = Some df" "3 \<le> length (collect_estimates df (past_earnings_dates u))"
    "price_statistics (map fst (collect_estimates df (past_earnings_dates u)))
           (map snd (collect_estimates df (past_earnings_dates u)))
         = (frequency r', avg_gain r', avg_drawdown r', price_score r')"
    by blast
  from d(2) have ne: "collect_estimates df (past_earnings_dates u) \<noteq> []"
    by auto
  show "\<exists>df found. bars = Some df
           \<and> found = collect_estimates df (past_earnings_dates u) \<and> found \<noteq> []
           \<and> frequency r' = spec_frequency found \<and> avg_gain r' = spec_avg_gain found
           \<and> avg_drawdown r' = spec_avg_drawdown found
           \<and> price_score r' = frequency r' * avg_gain r'"
    using d(1) ne statistics_fields [OF d(3) ne] by blast
qed

text \<open>
  The specification's first scenario (frequency 0.75, average gain 0.03167, price score
  0.02375) and the two analysis paths on the example history.
\<close>

theorem reaction_statistics_witness:
  "scenario_samples \<noteq> []
   \<and> price_statistics (map fst scenario_samples) (map snd scenario_samples)
       = (3 / 4, 19 / 600, - 3 / 100, 19 / 800)
   \<and> analyze_stock_earnings ''ACME'' (Some [1, 2, 5, 6]) 0 example_history neutral_fundamentals
       = Some example_analysis
   \<and> frequency example_analysis = spec_frequency (collect_events example_history [1, 2, 5, 6])
   \<and> avg_gain example_analysis = spec_avg_gain (collect_events example_history [1, 2, 5, 6])
   \<and> analyze_stock_history ''ACME'' 91 (Some example_history) neutral_fundamentals
       = Some example_estimate_analysis
   \<and> avg_drawdown example_estimate_analysis =
       spec_avg_drawdown (collect_estimates example_history (past_earnings_dates 91))"
proof -
  have ne: "scenario_samples \<noteq> []"
    by (simp add: scenario_samples_def)
  have f: "spec_frequency scenario_samples = 3 / 4"
    by (simp add: scenario_samples_def spec_frequency_def gain_samples_def)
  have g: "spec_avg_gain scenario_samples = 19 / 600"
    by (simp add: scenario_samples_def spec_avg_gain_def gain_samples_def mean_def)
  have d: "spec_avg_drawdown scenario_samples = - 3 / 100"
    by (simp add: scenario_samples_def spec_avg_drawdown_def drawdown_samples_def mean_def)
  note inst = reaction_statistics [where samples = scenario_samples and tk = "''ACME''"
      and eds = "Some [1, 2, 5, 6]" and cutoff = 0 and hist = example_history
      and fund = neutral_fundamentals and r = example_analysis and u = 91
      and bars = "Some example_history" and r' = example_estimate_analysis]
  show ?thesis
    using inst ne example_analysis_eval example_estimate_analysis_eval by (simp add: f g d)
qed

lemma mean_above:
  fixes c :: real
  assumes "xs \<noteq> []" and "\<forall>x\<in>set xs. c < x"
  shows "c < sum_list xs / real (length xs)"
proof -
  have "xs \<noteq> [] \<Longrightarrow> \<forall>x\<in>set xs. c < x \<Longrightarrow> c * real (length xs) < sum_list xs" for xs
  proof (induction xs)
    case Nil
    then show ?case by simp
  next
    case (Cons x xs)
    show ?case
    proof (cases "xs = []")
      case True
      with Cons.prems show ?thesis by simp
    next
      case False
      with Cons have "c * real (length xs) < sum_list xs" by simp
      moreover have "c < x" using Cons.prems by simp
      ultimately show ?thesis by (simp add: algebra_simps)
    qed
  qed
  from this [OF assms] assms(1) show ?thesis
    by (simp add: pos_less_divide_eq)
qed

lemma price_statistics_gain:
  assumes a: "price_statistics gs ds = (frq, gain, dd, ps)"
  shows "gain = 0 \<or> 0.01 < gain"
proof (cases "filter (\<lambda>g. 0.01 < g) gs = []")
  case True
  with a show ?thesis by (auto simp: price_statistics_def Let_def)
next
  case False
  have "0.01 < sum_list (filter (\<lambda>g. 0.01 < g) gs) / real (length (filter (\<lambda>g. 0.01 < g) gs))"
    by (rule mean_above [OF False]) simp
  moreover have "gain = sum_list (filter (\<lambda>g. 0.01 < g) gs) / real (length (filter (\<lambda>g. 0.01 < g) gs))"
    using a False by (auto simp: price_statistics_def Let_def)
  ultimately show ?thesis by simp
qed

text \<open>
  C7. For every list of samples the statistics give a frequency in \<open>[0, 1]\<close>, an
  average gain that is 0 or above 0.01 (only gains above 0.01 enter it), and a price
  score, frequency times average gain, that is not negative. The same holds of the
  fields of every result either analysis path returns.
\<close>

theorem frequency_and_price_score_bounds:
  "(price_statistics gs ds = (frq, gain, dd, ps) \<longrightarrow>
      0 \<le> frq \<and> frq \<le> 1 \<and> (gain = 0 \<or> 0.01 < gain) \<and> ps = frq * gain \<and> 0 \<le> ps)
   \<and> (analyze_stock_earnings tk eds cutoff hist fund = Some r \<longrightarrow>
        0 \<le> frequency r \<and> frequency r \<le> 1 \<and> (avg_gain r = 0 \<or> 0.01 < avg_gain r)
        \<and> price_score r = frequency r * avg_gain r \<and> 0 \<le> price_score r)
   \<and> (analyze_stock_history tk u bars fund = Some r' \<longrightarrow>
        0 \<le> frequency r' \<and> frequency r' \<le> 1 \<and> (avg_gain r' = 0 \<or> 0.01 < avg_gain r')
        \<and> price_score r' = frequency r' * avg_gain r' \<and> 0 \<le> price_score r')"
proof (intro conjI impI)
  assume a: "price_statistics gs ds = (frq, gain, dd, ps)"
  from price_statistics_bounds [OF a] show "0 \<le> frq" "frq \<le> 1" "ps = frq * gain" "0 \<le> ps"
    by simp_all
  from price_statistics_gain [OF a] show "gain = 0 \<or> 0.01 < gain" .
next
  assume "analyze_stock_earnings tk eds cutoff hist fund = Some r"
  from analyze_stock_earnings_Some [OF this] obtain gs ds where
    a: "price_statistics gs ds = (frequency r, avg_gain r, avg_drawdown r, price_score r)"
    by blast
  from price_statistics_bounds [OF a]
  show "0 \<le> frequency r" "frequency r \<le> 1" "price_score r = frequency r * avg_gain r"
    "0 \<le> price_score r"
    by simp_all
  from price_statistics_gain [OF a] show "avg_gain r = 0 \<or> 0.01 < avg_gain r" .
next
  assume "analyze_stock_history tk u bars fund = Some r'"
  from analyze_stock_history_Some [OF this] obtain gs ds where
    a: "price_statistics gs ds = (frequency r', avg_gain r', avg_drawdown r', price_score r')"
    by blast
  from price_statistics_bounds [OF a]
  show "0 \<le> frequency r'" "frequency r' \<le> 1" "price_score r' = frequency r' * avg_gain r'"
    "0 \<le> price_score r'"
    by simp_all
  from price_statistics_gain [OF a] show "avg_gain r' = 0 \<or> 0.01 < avg_gain r'" .
qed

text \<open>The bounds on a two-sample list and on both results for the example history.\<close>

theorem frequency_and_price_score_bounds_witness:
  "price_statistics [0.05, -0.02] [-0.02, -0.06] = (1 / 2, 1 / 20, - 1 / 25, 1 / 40)
   \<and> analyze_stock_earnings ''ACME'' (Some [1, 2, 5, 6]) 0 example_history neutral_fundamentals
       = Some example_analysis
   \<and> 0 \<le> frequency example_analysis \<and> frequency example_analysis \<le> 1
   \<and> 0 \<le> price_score example_analysis
   \<and> analyze_stock_history ''ACME'' 91 (Some example_history) neutral_fundamentals
       = Some example_estimate_analysis
   \<and> 0 \<le> frequency example_estimate_analysis \<and> frequency example_estimate_analysis \<le> 1
   \<and> 0 \<le> price_score example_estimate_analysis"
proof -
  have s: "price_statistics [0.05, -0.02] [-0.02, -0.06] = (1 / 2, 1 / 20, - 1 / 25, 1 / 40)"
    by (simp add: price_statistics_def)
  note inst = frequency_and_price_score_bounds [where gs = "[0.05, -0.02]"
      and ds = "[-0.02, -0.06]" and frq = "1 / 2" and gain = "1 / 20" and dd = "- 1 / 25"
      and ps = "1 / 40" and tk = "''ACME''"
      and eds = "Some [1, 2, 5, 6]" and cutoff = 0 and hist = example_history
      and fund = neutral_fundamentals and r = example_analysis and u = 91
      and bars = "Some example_history" and r' = example_estimate_analysis]
  show ?thesis
    using inst s example_analysis_eval example_estimate_analysis_eval by simp
qed

section \<open>Properties of the fundamental score\<close>

lemma normalized_surprise_clamp: "min (max x 0) 1 = clamp 0 1 (x :: real)"
  by (simp add: clamp_def max_def min_def)

lemma fundamental_score_of_spec:
  "fundamental_score_of f =
     0.5 * eps_beat_rate f + 0.3 * clamp 0 1 (avg_eps_surprise_pct f / 40 + 0.5)
     + 0.15 * analyst_score f + 0.05 * revenue_growth_trend f"
  unfolding fundamental_score_of_def Let_def
  using normalized_surprise_clamp [of "avg_eps_surprise_pct f / 40 + 0.5"]
  by (simp add: algebra_simps)

text \<open>
  C6. When \<open>eps_beat_rate\<close>, \<open>revenue_growth_trend\<close> and \<open>analyst_score\<close> each lie
  in \<open>[0, 1]\<close>, then for any \<open>avg_eps_surprise_pct\<close> the fundamental score
  \<open>0.5 * eps_beat_rate + 0.3 * clamp(0, 1, avg_eps_surprise_pct / 40 + 0.5)
  + 0.15 * analyst_score + 0.05 * revenue_growth_trend\<close> lies in \<open>[0, 1]\<close>; it is
  the \<open>fundamental_score\<close> of every result either analysis path returns.
\<close>

theorem fundamental_score_bounded:
  assumes "0 \<le> eps_beat_rate f" and "eps_beat_rate f \<le> 1"
    and "0 \<le> revenue_growth_trend f" and "revenue_growth_trend f \<le> 1"
    and "0 \<le> analyst_score f" and "analyst_score f \<le> 1"
  shows "fundamental_score_of f =
       0.5 * eps_beat_rate f + 0.3 * clamp 0 1 (avg_eps_surprise_pct f / 40 + 0.5)
       + 0.15 * analyst_score f + 0.05 * revenue_growth_trend f
     \<and> 0 \<le> fundamental_score_of f \<and> fundamental_score_of f \<le> 1
     \<and> (analyze_stock_earnings tk eds cutoff hist f = Some r \<longrightarrow>
          fundamental_score r = fundamental_score_of f)
     \<and> (analyze_stock_history tk u bars f = Some r' \<longrightarrow>
          fundamental_score r' = fundamental_score_of f)"
proof -
  have b: "0 \<le> fundamental_score_of f \<and> fundamental_score_of f \<le> 1"
  proof -
    define c where "c = clamp 0 1 (avg_eps_surprise_pct f / 40 + 0.5)"
    have c: "0 \<le> c" "c \<le> 1"
      by (simp_all add: c_def clamp_def)
    have eq: "fundamental_score_of f =
        eps_beat_rate f / 2 + 3 * c / 10 + 3 * analyst_score f / 20
        + revenue_growth_trend f / 20"
      by (simp add: fundamental_score_of_spec c_def)
    show ?thesis
      unfolding eq using assms c by linarith
  qed
  show ?thesis
    using b fundamental_score_of_spec [of f] analyze_stock_earnings_Some analyze_stock_history_Some
    by blast
qed

text \<open>The neutral fundamentals score one half.\<close>

theorem fundamental_score_bounded_witness:
  "0 \<le> eps_beat_rate neutral_fundamentals \<and> eps_beat_rate neutral_fundamentals \<le> 1
   \<and> 0 \<le> revenue_growth_trend neutral_fundamentals
   \<and> revenue_growth_trend neutral_fundamentals \<le> 1
   \<and> 0 \<le> analyst_score neutral_fundamentals \<and> analyst_score neutral_fundamentals \<le> 1
   \<and> fundamental_score_of neutral_fundamentals = 1 / 2
   \<and> 0 \<le> fundamental_score_of neutral_fundamentals
   \<and> fundamental_score_of neutral_fundamentals \<le> 1
   \<and> analyze_stock_earnings ''ACME'' (Some [1, 2, 5, 6]) 0 example_history neutral_fundamentals
       = Some example_analysis
   \<and> fundamental_score example_analysis = fundamental_score_of neutral_fundamentals
   \<and> analyze_stock_history ''ACME'' 91 (Some example_history) neutral_fundamentals
       = Some example_estimate_analysis
   \<and> fundamental_score example_estimate_analysis = fundamental_score_of neutral_fundamentals"
proof -
  have h: "0 \<le> eps_beat_rate neutral_fundamentals" "eps_beat_rate neutral_fundamentals \<le> 1"
    "0 \<le> revenue_growth_trend neutral_fundamentals"
    "revenue_growth_trend neutral_fundamentals \<le> 1"
    "0 \<le> analyst_score neutral_fundamentals" "analyst_score neutral_fundamentals \<le> 1"
    by (simp_all add: neutral_fundamentals_def)
  have v: "fundamental_score_of neutral_fundamentals = 1 / 2"
    by (simp add: fundamental_score_of_def neutral_fundamentals_def)
  note inst = fundamental_score_bounded [OF h, where tk = "''ACME''"
      and eds = "Some [1, 2, 5, 6]" and cutoff = 0 and hist = example_history
      and r = example_analysis and u = 91
      and bars = "Some example_history" and r' = example_estimate_analysis]
  show ?thesis
    using inst h v example_analysis_eval example_estimate_analysis_eval by simp
qed

section \<open>The minimum of earnings history\<close>






section \<open>Which events are skipped\<close>

lemma closest_trading_day_in_index:
  assumes "closest_trading_day df d = Some est"
  shows "est \<in> set (map bar_date df)"
proof (cases "d \<in> set (map bar_date df)")
  case True
  with assms show ?thesis
    by (simp add: closest_trading_day_def)
next
  case False
  with assms obtain rest where "filter (\<lambda>x. d \<le> x) (map bar_date df) = est # rest"
    by (auto simp: closest_trading_day_def Let_def split: list.splits)
  then have "est \<in> set (filter (\<lambda>x. d \<le> x) (map bar_date df))"
    by simp
  then show ?thesis
    by simp
qed

lemma df_loc_in_index:
  assumes "est \<in> set (map bar_date df)"
  shows "\<exists>row. df_loc df est = Inr row"
proof (cases "find (\<lambda>b. bar_date b = est) df")
  case None
  with assms show ?thesis
    by (auto simp: find_None_iff)
next
  case (Some row)
  then show ?thesis
    by (simp add: df_loc_def)
qed

lemma short_window_skipped:
  assumes "short_window df d"
  shows "analyze_estimate df d = Inr None"
proof (cases "closest_trading_day df d")
  case None
  then show ?thesis
    by (simp add: analyze_estimate_def)
next
  case (Some est)
  from df_loc_in_index [OF closest_trading_day_in_index [OF Some]]
  obtain row where "df_loc df est = Inr row"
    by blast
  with Some assms show ?thesis
    by (simp add: analyze_estimate_def short_window_def Let_def)
qed

lemma long_window_sampled:
  assumes "\<not> short_window df d"
  shows "\<exists>s. analyze_estimate df d = Inr (Some s)"
proof (cases "closest_trading_day df d")
  case None
  with assms show ?thesis
    by (simp add: short_window_def)
next
  case (Some est)
  from df_loc_in_index [OF closest_trading_day_in_index [OF Some]]
  obtain row where "df_loc df est = Inr row"
    by blast
  with Some assms show ?thesis
    by (simp add: analyze_estimate_def short_window_def Let_def)
qed

lemma collect_estimates_drop_short:
  "collect_estimates df dates = collect_estimates df (filter (\<lambda>d. \<not> short_window df d) dates)"
proof (induction dates)
  case Nil
  show ?case by simp
next
  case (Cons d dates)
  show ?case
  proof (cases "short_window df d")
    case True
    with Cons short_window_skipped [OF True] show ?thesis by simp
  next
    case False
    from long_window_sampled [OF False] obtain s where "analyze_estimate df d = Inr (Some s)"
      by blast
    with Cons False show ?thesis by simp
  qed
qed

lemma event_sampled_iff:
  "(\<exists>s. analyze_event hist d = Inr (Some s)) = (\<not> empty_window hist d)"
  by (auto simp: analyze_event_def empty_window_def Let_def split: sum.splits)

lemma collect_events_drop_empty:
  "collect_events hist dates = collect_events hist (filter (\<lambda>d. \<not> empty_window hist d) dates)"
proof (induction dates)
  case Nil
  show ?case by simp
next
  case (Cons d dates)
  show ?case
  proof (cases "empty_window hist d")
    case True
    then have "\<nexists>s. analyze_event hist d = Inr (Some s)"
      using event_sampled_iff [of hist d] by blast
    with Cons True show ?thesis
      by (auto split: sum.splits option.splits)
  next
    case False
    then obtain s where "analyze_event hist d = Inr (Some s)"
      using event_sampled_iff [of hist d] by blast
    with Cons False show ?thesis by simp
  qed
qed

text \<open>
  C4, as the code has it. In the estimated-earnings path an event with no trading day on
  or after its estimated date, or with fewer than three trading days after that day,
  produces no sample: it is skipped, and the collected samples (hence frequency, average
  gain and average drawdown) are those of the remaining events. In the real-calendar path
  an event produces a sample exactly when its date can be located in the history and at
  least one trading day follows: only an empty forward window is skipped there, and a
  window of one or two days yields a sample like any other.
\<close>

theorem short_windows_skipped:
  "(closest_trading_day df d = Some est \<and> length (future_dates df est) < 3 \<longrightarrow>
      analyze_estimate df d = Inr None)
   \<and> (short_window df d \<longrightarrow> analyze_estimate df d = Inr None)
   \<and> collect_estimates df dates =
       collect_estimates df (filter (\<lambda>d. \<not> short_window df d) dates)
   \<and> ((\<exists>s. analyze_event hist d' = Inr (Some s)) = (\<not> empty_window hist d'))
   \<and> (get_loc_ffill (map bar_date hist) d' = Inr t_idx
        \<and> next_5_trading_days hist t_idx \<noteq> [] \<longrightarrow>
      analyze_event hist d' =
        Inr (Some (reaction (next_5_trading_days hist t_idx) (bar_close (hist ! t_idx)))))
   \<and> collect_events hist dates' =
       collect_events hist (filter (\<lambda>d. \<not> empty_window hist d) dates')"
proof (intro conjI impI)
  assume "closest_trading_day df d = Some est \<and> length (future_dates df est) < 3"
  then have "short_window df d"
    by (simp add: short_window_def)
  then show "analyze_estimate df d = Inr None"
    by (rule short_window_skipped)
next
  assume "short_window df d"
  then show "analyze_estimate df d = Inr None"
    by (rule short_window_skipped)
next
  show "collect_estimates df dates =
       collect_estimates df (filter (\<lambda>d. \<not> short_window df d) dates)"
    by (rule collect_estimates_drop_short)
next
  show "(\<exists>s. analyze_event hist d' = Inr (Some s)) = (\<not> empty_window hist d')"
    by (rule event_sampled_iff)
next
  assume "get_loc_ffill (map bar_date hist) d' = Inr t_idx
        \<and> next_5_trading_days hist t_idx \<noteq> []"
  then show "analyze_event hist d' =
        Inr (Some (reaction (next_5_trading_days hist t_idx) (bar_close (hist ! t_idx))))"
    by (simp add: analyze_event_def)
next
  show "collect_events hist dates' =
       collect_events hist (filter (\<lambda>d. \<not> empty_window hist d) dates')"
    by (rule collect_events_drop_empty)
qed

text \<open>
  On the example history the estimated-earnings path skips the event of day 6 (one
  trading day follows), and the real-calendar path samples the event of day 5 (two
  trading days follow).
\<close>

theorem short_windows_skipped_witness:
  "closest_trading_day example_history 6 = Some 6
   \<and> length (future_dates example_history 6) < 3
   \<and> short_window example_history 6
   \<and> analyze_estimate example_history 6 = Inr None
   \<and> collect_estimates example_history [1, 6] = collect_estimates example_history [1]
   \<and> get_loc_ffill (map bar_date example_history) 5 = Inr 4
   \<and> next_5_trading_days example_history 4 \<noteq> []
   \<and> analyze_event example_history 5 = Inr (Some (3 / 50, - 1 / 50))"
proof -
  have h: "closest_trading_day example_history 6 = Some 6"
    "length (future_dates example_history 6) < 3"
    "get_loc_ffill (map bar_date example_history) 5 = Inr 4"
    "next_5_trading_days example_history 4 \<noteq> []"
    by (simp_all add: frame_defs)
  have s: "short_window example_history 6" "\<not> short_window example_history 1"
    by (simp_all add: short_window_def frame_defs)
  have r: "reaction (next_5_trading_days example_history 4) (bar_close (example_history ! 4))
      = (3 / 50, - 1 / 50)"
    by (simp add: frame_defs)
  note inst = short_windows_skipped [where df = example_history and d = 6 and est = 6
      and dates = "[1, 6]" and hist = example_history and d' = 5 and t_idx = 4]
  show ?thesis
    using inst h s r by simp
qed

text \<open>
  The claim as stated fails in the real-calendar path: one trading day follows day 6 of
  the example history, yet the event of day 6 produces a sample, and the samples of the
  events of days 5 and 6 enter the average gain of the analysis.
\<close>

theorem real_calendar_short_window_counterexample:
  "get_loc_ffill (map bar_date example_history) 6 = Inr 5
   \<and> length (next_5_trading_days example_history 5) = 1
   \<and> analyze_event example_history 6 = Inr (Some (3 / 50, - 1 / 50))
   \<and> collect_events example_history [1, 2, 5, 6] =
       [(3 / 25, - 1 / 20), (3 / 25, - 1 / 20), (3 / 50, - 1 / 50), (3 / 50, - 1 / 50)]
   \<and> analyze_stock_earnings ''ACME'' (Some [1, 2, 5, 6]) 0 example_history neutral_fundamentals
       = Some example_analysis
   \<and> avg_gain example_analysis = (3 / 25 + 3 / 25 + 3 / 50 + 3 / 50) / 4"
  using example_events example_analysis_eval
  by (simp add: analyze_event_def frame_defs) (simp add: example_analysis_def)

section \<open>Properties of the trade simulator\<close>

lemmas trade_defs = simulate_trade_def resolve_entry_date_def df_loc_def holding_period_def
  py_take_def

lemma gap_trade:
  "simulate_trade (Some gap_history) ''ACME'' 1 0.10 (-0.08) 5 =
     Some \<lparr>trade_ticker = ''ACME'', entry_date = 1, exit_date = 3, entry_price = 100,
       exit_price = 110, pnl = 10, pnl_percent = 10, exit_reason = ''Take profit hit'',
       take_profit_price = 110, stop_loss_price = 92\<rparr>"
  by (simp add: trade_defs gap_history_def)

lemma simulate_days_first_hit:
  assumes "\<forall>b\<in>set before. bar_high b < tp \<and> sl < bar_low b" and "tp \<le> bar_high day"
  shows "simulate_days tp sl (before @ day # after) = Some (bar_date day, tp, ''Take profit hit'')"
  using assms by (induction before) simp_all

text \<open>
  C1. While the simulator is watching the hold window (no earlier day of the window has
  reached the take-profit price with its high or the stop-loss price with its low), a day
  whose high is at or above the take-profit price and whose low is at or below the
  stop-loss price at once makes it exit on that day with the reason "Take profit hit", at
  exactly the take-profit price, and never with "Stop loss hit": the take-profit check
  comes first. The two prices are those the simulator computes from the entry close and
  records in the trade; the loop resolves such a day in the same way for any two levels
  it is given.
\<close>

theorem take_profit_checked_first:
  assumes "resolve_entry_date df entry = Some entry'"
    and "df_loc df entry' = Inr entry_row"
    and "holding_period df entry' hold_days = before @ day # after"
    and "\<forall>b\<in>set before.
           bar_high b < bar_close entry_row * (1 + take_profit_pct)
           \<and> bar_close entry_row * (1 + stop_loss_pct) < bar_low b"
    and "bar_close entry_row * (1 + take_profit_pct) \<le> bar_high day"
    and "bar_low day \<le> bar_close entry_row * (1 + stop_loss_pct)"
  shows "(\<exists>t. simulate_trade (Some df) tk entry take_profit_pct stop_loss_pct hold_days = Some t
     \<and> exit_date t = bar_date day
     \<and> exit_reason t = ''Take profit hit''
     \<and> exit_reason t \<noteq> ''Stop loss hit''
     \<and> exit_price t = bar_close entry_row * (1 + take_profit_pct)
     \<and> exit_price t = take_profit_price t
     \<and> stop_loss_price t = bar_close entry_row * (1 + stop_loss_pct))
     \<and> (\<forall>tp sl. (\<forall>b\<in>set before. bar_high b < tp \<and> sl < bar_low b) \<longrightarrow>
            tp \<le> bar_high day \<longrightarrow> bar_low day \<le> sl \<longrightarrow>
            simulate_days tp sl (before @ day # after)
              = Some (bar_date day, tp, ''Take profit hit''))"
proof -
  have ne: "df \<noteq> []"
    using assms(2) by (auto simp: df_loc_def)
  have hit: "simulate_days (bar_close entry_row * (1 + take_profit_pct))
      (bar_close entry_row * (1 + stop_loss_pct)) (before @ day # after)
      = Some (bar_date day, bar_close entry_row * (1 + take_profit_pct), ''Take profit hit'')"
    by (rule simulate_days_first_hit [OF assms(4,5)])
  have trade: "\<exists>t. simulate_trade (Some df) tk entry take_profit_pct stop_loss_pct hold_days = Some t
     \<and> exit_date t = bar_date day
     \<and> exit_reason t = ''Take profit hit''
     \<and> exit_reason t \<noteq> ''Stop loss hit''
     \<and> exit_price t = bar_close entry_row * (1 + take_profit_pct)
     \<and> exit_price t = take_profit_price t
     \<and> stop_loss_price t = bar_close entry_row * (1 + stop_loss_pct)"
    using ne assms(1,2,3) hit by (simp add: simulate_trade_def Let_def)
  have loop: "\<forall>tp sl. (\<forall>b\<in>set before. bar_high b < tp \<and> sl < bar_low b) \<longrightarrow>
            tp \<le> bar_high day \<longrightarrow> bar_low day \<le> sl \<longrightarrow>
            simulate_days tp sl (before @ day # after)
              = Some (bar_date day, tp, ''Take profit hit'')"
    using simulate_days_first_hit by blast
  from trade loop show ?thesis
    by (rule conjI)
qed

text \<open>
  On \<open>gap_history\<close>, entered on day 1 at 100 with a target of 10 percent and a stop of
  8 percent, day 2 reaches neither level and day 3 spans both: the exit is the take profit
  of day 3 at 110.
\<close>

theorem take_profit_checked_first_witness:
  "resolve_entry_date gap_history 1 = Some 1
   \<and> df_loc gap_history 1 = Inr (gap_history ! 0)
   \<and> holding_period gap_history 1 5 = [gap_history ! 1] @ gap_history ! 2 # []
   \<and> bar_high (gap_history ! 1) < bar_close (gap_history ! 0) * (1 + 0.10)
   \<and> bar_close (gap_history ! 0) * (1 + (-0.08)) < bar_low (gap_history ! 1)
   \<and> bar_close (gap_history ! 0) * (1 + 0.10) \<le> bar_high (gap_history ! 2)
   \<and> bar_low (gap_history ! 2) \<le> bar_close (gap_history ! 0) * (1 + (-0.08))
   \<and> simulate_trade (Some gap_history) ''ACME'' 1 0.10 (-0.08) 5 =
       Some \<lparr>trade_ticker = ''ACME'', entry_date = 1, exit_date = 3, entry_price = 100,
         exit_price = 110, pnl = 10, pnl_percent = 10, exit_reason = ''Take profit hit'',
         take_profit_price = 110, stop_loss_price = 92\<rparr>
   \<and> simulate_days 110 92 (holding_period gap_history 1 5) = Some (3, 110, ''Take profit hit'')"
proof -
  have h1: "resolve_entry_date gap_history 1 = Some 1"
    by (simp add: resolve_entry_date_def gap_history_def)
  have h2: "df_loc gap_history 1 = Inr (gap_history ! 0)"
    by (simp add: df_loc_def gap_history_def)
  have h3: "holding_period gap_history 1 5 = [gap_history ! 1] @ gap_history ! 2 # []"
    by (simp add: holding_period_def py_take_def gap_history_def)
  have h4: "\<forall>b\<in>set [gap_history ! 1].
      bar_high b < bar_close (gap_history ! 0) * (1 + 0.10)
      \<and> bar_close (gap_history ! 0) * (1 + (-0.08)) < bar_low b"
    by (simp add: gap_history_def)
  have h5: "bar_close (gap_history ! 0) * (1 + 0.10) \<le> bar_high (gap_history ! 2)"
    by (simp add: gap_history_def)
  have h6: "bar_low (gap_history ! 2) \<le> bar_close (gap_history ! 0) * (1 + (-0.08))"
    by (simp add: gap_history_def)
  note inst = take_profit_checked_first [OF h1 h2 h3 h4 h5 h6, of "''ACME''"]
  from inst obtain t where
    t: "simulate_trade (Some gap_history) ''ACME'' 1 0.10 (-0.08) 5 = Some t"
    "exit_date t = bar_date (gap_history ! 2)" "exit_reason t = ''Take profit hit''"
    by blast
  have l: "bar_high (gap_history ! 1) < 110" "92 < bar_low (gap_history ! 1)"
    "110 \<le> bar_high (gap_history ! 2)" "bar_low (gap_history ! 2) \<le> 92"
    "bar_date (gap_history ! 2) = 3"
    by (simp_all add: gap_history_def)
  from inst have "(\<forall>b\<in>set [gap_history ! 1]. bar_high b < 110 \<and> 92 < bar_low b) \<longrightarrow>
      110 \<le> bar_high (gap_history ! 2) \<longrightarrow> bar_low (gap_history ! 2) \<le> 92 \<longrightarrow>
      simulate_days 110 92 ([gap_history ! 1] @ gap_history ! 2 # [])
        = Some (bar_date (gap_history ! 2), 110, ''Take profit hit'')"
    by blast
  with l h3 have loop: "simulate_days 110 92 (holding_period gap_history 1 5)
      = Some (3, 110, ''Take profit hit'')"
    by simp
  show ?thesis
    using h1 h2 h3 h4 h5 h6 t gap_trade loop by simp
qed

section \<open>Properties of the backtest statistics\<close>

lemma drawdown_scan_total:
  "0 < m \<Longrightarrow> \<exists>d. drawdown_scan m dd cs = Inr d"
proof (induction cs arbitrary: m dd)
  case Nil
  show ?case by simp
next
  case (Cons c cs)
  have "0 < max m c" using Cons.prems by simp
  from Cons.IH [OF this] show ?case
    using \<open>0 < max m c\<close> by (simp add: py_div_def Let_def)
qed

lemma trade_statistics_Some:
  assumes "trade_statistics initial capital trades ledger = Inr (Statistics s)"
  shows "avg_win s = mean_trade_pnl (filter (\<lambda>t. 0 < pnl t) trades)
     \<and> avg_loss s = mean_trade_pnl (filter (\<lambda>t. pnl t \<le> 0) trades)
     \<and> profit_factor s = (if avg_loss s = 0 then 0 else \<bar>avg_win s / avg_loss s\<bar>)"
proof -
  define win where "win = mean_trade_pnl (filter (\<lambda>t. 0 < pnl t) trades)"
  define loss where "loss = mean_trade_pnl (filter (\<lambda>t. pnl t \<le> 0) trades)"
  have w: "(if filter (\<lambda>t. 0 < pnl t) trades \<noteq> []
      then sum_list (map trade_pnl (filter (\<lambda>t. 0 < pnl t) trades))
           / real (length (filter (\<lambda>t. 0 < pnl t) trades)) else 0) = win"
    by (simp add: win_def mean_trade_pnl_def mean_def)
  have l: "(if filter (\<lambda>t. pnl t \<le> 0) trades \<noteq> []
      then sum_list (map trade_pnl (filter (\<lambda>t. pnl t \<le> 0) trades))
           / real (length (filter (\<lambda>t. pnl t \<le> 0) trades)) else 0) = loss"
    by (simp add: loss_def mean_trade_pnl_def mean_def)
  have "avg_win s = win \<and> avg_loss s = loss
     \<and> profit_factor s = (if loss = 0 then 0 else \<bar>win / loss\<bar>)"
    using assms unfolding trade_statistics_def Let_def w l
    by (auto simp: py_div_def split: if_splits sum.splits)
  then show ?thesis
    by (simp add: win_def loss_def)
qed

lemma trade_statistics_total:
  assumes "0 < initial"
  shows "(\<forall>e. trade_statistics initial capital trades ledger \<noteq> Inl e)
     \<and> (trades \<noteq> [] \<longrightarrow> (\<exists>s. trade_statistics initial capital trades ledger = Inr (Statistics s)))"
proof -
  from drawdown_scan_total [OF assms] obtain d where "drawdown_scan initial 0 ledger = Inr d"
    by blast
  then show ?thesis
    using assms unfolding trade_statistics_def Let_def py_div_def
    by (auto split: if_splits sum.splits)
qed

text \<open>
  C8. In every summary of either backtest the average win is the mean \<open>trade_pnl\<close> of
  the trades with \<open>pnl > 0\<close> and the average loss the mean \<open>trade_pnl\<close> of the
  trades with \<open>pnl \<le> 0\<close> (each 0 when there is no such trade), and the profit factor
  is the absolute value of average win over average loss, or the default 0 when the
  average loss is 0. With a positive initial capital the statistics raise no
  \<open>ZeroDivisionError\<close>, and they produce a summary whenever there is a trade.
\<close>

theorem profit_factor_guarded:
  "(calculate_statistics fb = Inr (Statistics s) \<longrightarrow>
      avg_win s = mean_trade_pnl (filter (\<lambda>t. 0 < pnl t) (fb_trades fb))
      \<and> avg_loss s = mean_trade_pnl (filter (\<lambda>t. pnl t \<le> 0) (fb_trades fb))
      \<and> profit_factor s = (if avg_loss s = 0 then 0 else \<bar>avg_win s / avg_loss s\<bar>))
   \<and> (0 < fb_initial_capital fb \<longrightarrow>
        (\<forall>e. calculate_statistics fb \<noteq> Inl e)
        \<and> (fb_trades fb \<noteq> [] \<longrightarrow> (\<exists>s. calculate_statistics fb = Inr (Statistics s))))
   \<and> (backtest_strategy market stocks initial = Inr (Statistics s') \<longrightarrow>
        avg_win s' =
          mean_trade_pnl (filter (\<lambda>t. 0 < pnl t) (fst (book_trades market initial stocks)))
        \<and> avg_loss s' =
          mean_trade_pnl (filter (\<lambda>t. pnl t \<le> 0) (fst (book_trades market initial stocks)))
        \<and> profit_factor s' = (if avg_loss s' = 0 then 0 else \<bar>avg_win s' / avg_loss s'\<bar>))
   \<and> (0 < initial \<longrightarrow> (\<forall>e. backtest_strategy market stocks initial \<noteq> Inl e))"
proof (intro conjI impI)
  assume a: "calculate_statistics fb = Inr (Statistics s)"
  from trade_statistics_Some [OF a [unfolded calculate_statistics_def]]
  show "avg_win s = mean_trade_pnl (filter (\<lambda>t. 0 < pnl t) (fb_trades fb))"
    "avg_loss s = mean_trade_pnl (filter (\<lambda>t. pnl t \<le> 0) (fb_trades fb))"
    "profit_factor s = (if avg_loss s = 0 then 0 else \<bar>avg_win s / avg_loss s\<bar>)"
    by simp_all
next
  assume p: "0 < fb_initial_capital fb"
  from trade_statistics_total [OF p]
  show "\<forall>e. calculate_statistics fb \<noteq> Inl e"
    by (simp add: calculate_statistics_def)
  assume "fb_trades fb \<noteq> []"
  with trade_statistics_total [OF p]
  show "\<exists>s. calculate_statistics fb = Inr (Statistics s)"
    by (simp add: calculate_statistics_def)
next
  assume a: "backtest_strategy market stocks initial = Inr (Statistics s')"
  obtain trades capital where b: "book_trades market initial stocks = (trades, capital)"
    by (cases "book_trades market initial stocks")
  from a b have "trade_statistics initial capital trades (map capital_after trades)
      = Inr (Statistics s')"
    by (simp add: backtest_strategy_def)
  from trade_statistics_Some [OF this] b
  show "avg_win s' =
          mean_trade_pnl (filter (\<lambda>t. 0 < pnl t) (fst (book_trades market initial stocks)))"
    "avg_loss s' =
          mean_trade_pnl (filter (\<lambda>t. pnl t \<le> 0) (fst (book_trades market initial stocks)))"
    "profit_factor s' = (if avg_loss s' = 0 then 0 else \<bar>avg_win s' / avg_loss s'\<bar>)"
    by simp_all
next
  assume p: "0 < initial"
  obtain trades capital where b: "book_trades market initial stocks = (trades, capital)"
    by (cases "book_trades market initial stocks")
  from trade_statistics_total [OF p] b
  show "\<forall>e. backtest_strategy market stocks initial \<noteq> Inl e"
    by (simp add: backtest_strategy_def)
qed

lemma example_backtester_eval:
  "calculate_statistics example_backtester = Inr (Statistics example_summary)"
  by (simp add: calculate_statistics_def example_backtester_def trade_statistics_def
      winning_trade_def losing_trade_def py_div_def example_summary_def)

lemma example_booking:
  "book_trades example_market 10000 example_stocks = ([winning_trade], 10850)"
  by (simp add: example_stocks_def example_market_def trade_defs gap_history_def
      winning_trade_def trade.extend_def Let_def)

lemma example_strategy_eval:
  "backtest_strategy example_market example_stocks 10000
     = Inr (Statistics example_strategy_summary)"
  by (simp add: backtest_strategy_def example_booking trade_statistics_def py_div_def
      winning_trade_def example_strategy_summary_def del: book_trades.simps)

text \<open>
  A full backtest with one win and one loss has the profit factor 850 / 737.8; a strategy
  backtest with a single winning trade has the average loss 0 and the profit factor 0.
\<close>

theorem profit_factor_guarded_witness:
  "calculate_statistics example_backtester = Inr (Statistics example_summary)
   \<and> 0 < fb_initial_capital example_backtester \<and> fb_trades example_backtester \<noteq> []
   \<and> avg_loss example_summary \<noteq> 0
   \<and> profit_factor example_summary = \<bar>avg_win example_summary / avg_loss example_summary\<bar>
   \<and> backtest_strategy example_market example_stocks 10000
       = Inr (Statistics example_strategy_summary)
   \<and> avg_loss example_strategy_summary = 0
   \<and> profit_factor example_strategy_summary = 0"
proof -
  have h: "0 < fb_initial_capital example_backtester" "fb_trades example_backtester \<noteq> []"
    by (simp_all add: example_backtester_def)
  have l: "avg_loss example_summary \<noteq> 0" "avg_loss example_strategy_summary = 0"
    by (simp_all add: example_summary_def example_strategy_summary_def)
  note inst = profit_factor_guarded [where fb = example_backtester and s = example_summary
      and market = example_market and stocks = example_stocks and initial = 10000
      and s' = example_strategy_summary]
  show ?thesis
    using inst h l example_backtester_eval example_strategy_eval by simp
qed

end
